theory Spec2Isabelle
  imports Main "HOL-Library.AList"
begin

section \<open>The game session manager of server.js\<close>

text \<open>
  The server keeps one object \<open>games\<close> from game ids to game objects and registers one
  handler per socket event. Each handler is embedded as a function from the state of the
  server to the new state and the list of transport effects it performs, in the order of
  the source. What the handlers take from outside is an argument: the id of the sending
  socket (\<open>socket.id\<close>), the payload, every value read from \<open>Date.now()\<close>, the random
  game id of \<open>create-game\<close>, and the chess.js rules engine. Calls of \<open>console.log\<close>
  are left out.
\<close>

subsection \<open>Data\<close>

type_synonym sid = string
type_synonym gid = string

text \<open>The strings \<open>'w'\<close> and \<open>'b'\<close> of \<open>turn\<close> and \<open>color\<close>.\<close>

datatype color = White | Black

text \<open>The values stored in \<open>result\<close>: \<open>'draw'\<close> or the winner's color.\<close>

datatype outcome = Draw | Winner color

record pinfo =
  color :: color
  connected :: bool
  lastSeen :: int

text \<open>
  A game object. The properties \<open>finished\<close> and \<open>result\<close> are absent from the object
  that \<open>create-game\<close> builds and are only ever assigned \<open>true\<close> and an outcome:
  \<open>finished = False\<close> and \<open>result = None\<close> stand for the absent own property.
  A key of \<open>playerInfo\<close> holding \<open>undefined\<close> reads like an absent key in every
  access the source makes, and is modelled as absent. Socket ids come from the
  transport and are taken not to be names that \<open>playerInfo\<close> inherits.
\<close>

record 'pos game =
  gameState :: 'pos
  players :: "sid list"
  turn :: color
  lastActivity :: int
  playerInfo :: "sid \<rightharpoonup> pinfo"
  finished :: bool
  result :: "outcome option"

text \<open>
  The state of the server. \<open>games\<close> holds the own properties of the object \<open>games\<close>,
  in key order: an assignment \<open>games[k] = g\<close> (or a mutation of the object stored
  there) is \<open>AList.update k g\<close>, \<open>delete games[k]\<close> is \<open>AList.delete k\<close>, and
  \<open>Object.keys(games)\<close> is \<open>map fst\<close> of it. (JavaScript enumerates keys that look
  like array indices before the others; the order of enumeration only decides the order
  in which \<open>disconnect\<close> sends its notices.)

  \<open>games\<close> is a plain object, so a read \<open>games[k]\<close> of a key that is not its own
  goes on to \<open>Object.prototype\<close>, and a handler that writes to what it has read there
  writes to a shared object. The three other fields record the properties that handlers
  have written to \<open>Object.prototype\<close> itself (read under the key \<open>__proto__\<close>): the
  number in \<open>lastActivity\<close>, and whether \<open>finished\<close> and \<open>result\<close> are set (to
  \<open>true\<close> and \<open>'draw'\<close>). Properties written to the functions that
  \<open>Object.prototype\<close> holds are read by no handler and are not recorded.
\<close>

record 'pos server =
  games :: "(gid \<times> 'pos game) list"
  protoLastActivity :: "int option"
  protoFinished :: bool
  protoResult :: bool

text \<open>The server at start: \<open>const games = {}\<close> and an untouched \<open>Object.prototype\<close>.\<close>

definition init :: "'pos server" where
  "init = \<lparr>games = [], protoLastActivity = None, protoFinished = False, protoResult = False\<rparr>"

text \<open>The names under which \<open>Object.prototype\<close> holds a function.\<close>

definition prototype_functions :: "string list" where
  "prototype_functions =
     [''constructor'', ''__defineGetter__'', ''__defineSetter__'', ''hasOwnProperty'',
      ''__lookupGetter__'', ''__lookupSetter__'', ''isPrototypeOf'',
      ''propertyIsEnumerable'', ''toString'', ''valueOf'', ''toLocaleString'']"

text \<open>
  What a read \<open>games[gameId]\<close> gives: a game (an own key); an object that is no game
  (\<open>Foreign True\<close> is \<open>Object.prototype\<close> itself, \<open>Foreign False\<close> one of its
  functions), on which \<open>players\<close>, \<open>playerInfo\<close> and \<open>gameState\<close> are
  \<open>undefined\<close>; a truthy primitive value written there earlier, on which a property
  write throws (the file is a module, hence strict); or a falsy value (\<open>undefined\<close>,
  or the number 0).
\<close>

datatype 'pos found = Session "'pos game" | Foreign bool | Primitive | Undefined

definition lookup :: "'pos server \<Rightarrow> gid \<Rightarrow> 'pos found" where
  "lookup srv gameId =
     (case map_of (games srv) gameId of
        Some game \<Rightarrow> Session game
      | None \<Rightarrow>
          if gameId = ''__proto__'' then Foreign True
          else if gameId \<in> set prototype_functions then Foreign False
          else if gameId = ''lastActivity'' then
            (case protoLastActivity srv of
               None \<Rightarrow> Undefined
             | Some t \<Rightarrow> if t = 0 then Undefined else Primitive)
          else if gameId = ''finished'' \<and> protoFinished srv then Primitive
          else if gameId = ''result'' \<and> protoResult srv then Primitive
          else Undefined)"

text \<open>The write \<open>games[gameId] = game\<close>, and the mutation of a game read from there.\<close>

definition store :: "gid \<Rightarrow> 'pos game \<Rightarrow> 'pos server \<Rightarrow> 'pos server" where
  "store gameId game srv = srv\<lparr>games := AList.update gameId game (games srv)\<rparr>"

subsection \<open>The rules engine\<close>

text \<open>
  chess.js is an import, not part of the source. A call \<open>gameState.move({from, to,
  promotion: 'q'})\<close> either returns a truthy move object and leaves the position
  advanced, or throws an error carrying a message and leaves the position as it was;
  the engine with the methods \<open>isCheck\<close>, \<open>isCheckmate\<close> and \<open>isDraw\<close> throws on
  every move it does not make. The handler also provides for a falsy return
  (\<open>if (move)\<close>), which is \<open>Null\<close>.
\<close>

datatype ('pos, 'mv) move_result = Moved 'mv 'pos | Null | Throws string

record ('pos, 'mv) engine =
  newChess :: 'pos
  move :: "'pos \<Rightarrow> string \<Rightarrow> string \<Rightarrow> ('pos, 'mv) move_result"
  fen :: "'pos \<Rightarrow> string"
  isCheck :: "'pos \<Rightarrow> bool"
  isCheckmate :: "'pos \<Rightarrow> bool"
  isDraw :: "'pos \<Rightarrow> bool"

subsection \<open>Transport effects\<close>

text \<open>
  The events sent to clients. \<open>TypeErrorMsg\<close> is the \<open>error\<close> event whose message is
  the text of the TypeError that the runtime raises for \<open>indexOf\<close> of \<open>undefined\<close>.
\<close>

datatype 'mv message =
    GameStateSynced string color bool bool bool
  | GameCreated gid color
  | GameJoined gid color
  | GameStart string color
  | ErrorMsg string
  | TypeErrorMsg
  | MoveMade string string string color bool bool bool 'mv
  | YourTurn
  | ReconnectedToGame gid color string color bool bool bool
  | OpponentReconnected
  | OpponentDisconnected
  | DrawOffered
  | DrawAccepted
  | PlayerResigned color

text \<open>
  \<open>SocketEmit s m\<close> is \<open>socket.emit\<close> on the socket \<open>s\<close>, \<open>RoomEmit r m\<close> is
  \<open>io.to(r).emit\<close>, \<open>SocketJoin s r\<close> is \<open>socket.join(r)\<close>, and \<open>Uncaught\<close> is a
  TypeError that leaves the handler.
\<close>

datatype 'mv effect =
    SocketEmit sid "'mv message"
  | RoomEmit string "'mv message"
  | SocketJoin sid gid
  | Uncaught

subsection \<open>Helpers of the handlers\<close>

text \<open>\<open>Array.prototype.indexOf\<close>: the first index holding the value, or \<open>-1\<close>.\<close>

fun indexOf :: "'a list \<Rightarrow> 'a \<Rightarrow> int" where
  "indexOf [] x = - 1"
| "indexOf (y # ys) x =
     (if y = x then 0
      else (let i = indexOf ys x in if i = - 1 then - 1 else i + 1))"

text \<open>\<open>playerIndex === 0 ? 'w' : 'b'\<close>\<close>

definition playerColor :: "int \<Rightarrow> color" where
  "playerColor playerIndex = (if playerIndex = 0 then White else Black)"

text \<open>\<open>c === 'w' ? 'b' : 'w'\<close>\<close>

definition flip :: "color \<Rightarrow> color" where
  "flip c = (if c = White then Black else White)"

text \<open>\<open>playerIndex === 0 ? 1 : 0\<close>\<close>

definition opponentIndex :: "int \<Rightarrow> nat" where
  "opponentIndex playerIndex = (if playerIndex = 0 then 1 else 0)"

text \<open>\<open>24 * 60 * 60 * 1000\<close>\<close>

definition retention :: int where
  "retention = 24 * 60 * 60 * 1000"

subsection \<open>The handlers\<close>

text \<open>
  \<open>sync-game-state\<close> writes \<open>lastActivity\<close> to whatever truthy value it has read and
  then calls \<open>fen\<close> on its \<open>gameState\<close>, which throws when that is no game.
\<close>

definition sync_game_state ::
  "('pos, 'mv) engine \<Rightarrow> sid \<Rightarrow> gid \<Rightarrow> int \<Rightarrow> 'pos server \<Rightarrow> 'pos server \<times> 'mv effect list" where
  "sync_game_state eng socket gameId now srv =
     (case lookup srv gameId of
        Session game \<Rightarrow>
          (store gameId (game\<lparr>lastActivity := now\<rparr>) srv,
           [SocketEmit socket
              (GameStateSynced (fen eng (gameState game)) (turn game)
                 (isCheck eng (gameState game)) (isCheckmate eng (gameState game))
                 (isDraw eng (gameState game)))])
      | Foreign isPrototype \<Rightarrow>
          (if isPrototype then srv\<lparr>protoLastActivity := Some now\<rparr> else srv, [Uncaught])
      | Primitive \<Rightarrow> (srv, [Uncaught])
      | Undefined \<Rightarrow> (srv, []))"

text \<open>
  \<open>gameId\<close> is the id drawn from \<open>Math.random().toString(36).substring(2, 8)\<close>, at
  most six digits and lower-case letters (so never \<open>__proto__\<close>, for which the
  assignment would make no key); \<open>tActivity\<close> and \<open>tSeen\<close> are the two reads of the
  clock.
\<close>

definition create_game ::
  "('pos, 'mv) engine \<Rightarrow> sid \<Rightarrow> gid \<Rightarrow> int \<Rightarrow> int \<Rightarrow> 'pos server \<Rightarrow> 'pos server \<times> 'mv effect list" where
  "create_game eng socket gameId tActivity tSeen srv =
     (store gameId
        \<lparr>gameState = newChess eng,
         players = [socket],
         turn = White,
         lastActivity = tActivity,
         playerInfo = [socket \<mapsto> \<lparr>color = White, connected = True, lastSeen = tSeen\<rparr>],
         finished = False,
         result = None\<rparr> srv,
      [SocketJoin socket gameId, SocketEmit socket (GameCreated gameId White)])"

text \<open>
  In \<open>games[gameId] && games[gameId].players.length < 2\<close> the read of \<open>length\<close>
  throws when the value is truthy and no game.
\<close>

definition join_game ::
  "('pos, 'mv) engine \<Rightarrow> sid \<Rightarrow> gid \<Rightarrow> int \<Rightarrow> int \<Rightarrow> 'pos server \<Rightarrow> 'pos server \<times> 'mv effect list" where
  "join_game eng socket gameId tSeen tActivity srv =
     (case lookup srv gameId of
        Undefined \<Rightarrow> (srv, [SocketEmit socket (ErrorMsg ''Game not found or full'')])
      | Foreign isPrototype \<Rightarrow> (srv, [Uncaught])
      | Primitive \<Rightarrow> (srv, [Uncaught])
      | Session game \<Rightarrow>
          if length (players game) < 2 then
            (store gameId
               (game\<lparr>players := players game @ [socket],
                     playerInfo := (playerInfo game)
                       (socket \<mapsto> \<lparr>color = Black, connected = True, lastSeen = tSeen\<rparr>),
                     lastActivity := tActivity\<rparr>) srv,
             [SocketJoin socket gameId,
              SocketEmit socket (GameJoined gameId Black),
              RoomEmit gameId (GameStart (fen eng (gameState game)) (turn game))])
          else (srv, [SocketEmit socket (ErrorMsg ''Game not found or full'')]))"

text \<open>
  The turn notice after a move: \<open>players[nextPlayerIndex]\<close> must be there and truthy
  (a non-empty string) and its \<open>playerInfo\<close> entry must say \<open>connected\<close>.
\<close>

definition your_turn :: "'pos game \<Rightarrow> 'mv effect list" where
  "your_turn game =
     (let nextPlayerIndex = (if turn game = White then 0 else 1 :: nat) in
      if nextPlayerIndex < length (players game) then
        (let nextPlayerId = players game ! nextPlayerIndex in
         if nextPlayerId \<noteq> [] \<and>
            (case playerInfo game nextPlayerId of None \<Rightarrow> False | Some p \<Rightarrow> connected p)
         then [RoomEmit nextPlayerId YourTurn] else [])
      else [])"

text \<open>
  The body of \<open>make-move\<close> is in a \<open>try\<close>: the TypeError of \<open>indexOf\<close> on a value
  that is no game, and an error thrown by the engine, end in the \<open>catch\<close>, which sends
  the message to the sender.
\<close>

definition make_move ::
  "('pos, 'mv) engine \<Rightarrow> sid \<Rightarrow> gid \<Rightarrow> string \<Rightarrow> string \<Rightarrow> int \<Rightarrow> 'pos server
     \<Rightarrow> 'pos server \<times> 'mv effect list" where
  "make_move eng socket gameId from to now srv =
     (case lookup srv gameId of
        Undefined \<Rightarrow> (srv, [])
      | Foreign isPrototype \<Rightarrow> (srv, [SocketEmit socket TypeErrorMsg])
      | Primitive \<Rightarrow> (srv, [SocketEmit socket TypeErrorMsg])
      | Session game \<Rightarrow>
          if turn game \<noteq> playerColor (indexOf (players game) socket) then
            (srv, [SocketEmit socket (ErrorMsg ''Not your turn'')])
          else
            (case move eng (gameState game) from to of
               Throws msg \<Rightarrow> (srv, [SocketEmit socket (ErrorMsg msg)])
             | Null \<Rightarrow> (srv, [])
             | Moved mv pos \<Rightarrow>
                 (let game' = game\<lparr>gameState := pos,
                                    turn := flip (turn game),
                                    lastActivity := now\<rparr>
                  in (store gameId game' srv,
                      RoomEmit gameId
                        (MoveMade from to (fen eng pos) (turn game')
                           (isCheck eng pos) (isCheckmate eng pos) (isDraw eng pos) mv)
                      # your_turn game'))))"

text \<open>
  In \<open>games[gameId] && games[gameId].playerInfo[socket.id]\<close> the read under
  \<open>socket.id\<close> throws when the value is truthy and no game.
\<close>

definition heartbeat :: "sid \<Rightarrow> gid \<Rightarrow> int \<Rightarrow> 'pos server \<Rightarrow> 'pos server \<times> 'mv effect list" where
  "heartbeat socket gameId now srv =
     (case lookup srv gameId of
        Undefined \<Rightarrow> (srv, [])
      | Foreign isPrototype \<Rightarrow> (srv, [Uncaught])
      | Primitive \<Rightarrow> (srv, [Uncaught])
      | Session game \<Rightarrow>
          (case playerInfo game socket of
             None \<Rightarrow> (srv, [])
           | Some p \<Rightarrow>
               (store gameId
                  (game\<lparr>playerInfo := (playerInfo game)
                          (socket \<mapsto> p\<lparr>lastSeen := now, connected := True\<rparr>)\<rparr>) srv,
                [])))"

text \<open>
  \<open>reconnect-to-game\<close> has no \<open>try\<close>: \<open>indexOf\<close> on a value that is no game throws;
  and when \<open>previousId\<close> holds a slot but has no \<open>playerInfo\<close> entry,
  \<open>playerInfo[socket.id]\<close> is assigned \<open>undefined\<close> and the write to its
  \<open>connected\<close> throws, after the slot has been replaced. Otherwise the entry moves
  from \<open>previousId\<close> to the new id (the same object under both keys until the old
  key is deleted).
\<close>

definition reconnect_to_game ::
  "('pos, 'mv) engine \<Rightarrow> sid \<Rightarrow> gid \<Rightarrow> sid \<Rightarrow> int \<Rightarrow> 'pos server \<Rightarrow> 'pos server \<times> 'mv effect list" where
  "reconnect_to_game eng socket gameId previousId now srv =
     (case lookup srv gameId of
        Undefined \<Rightarrow> (srv, [SocketEmit socket (ErrorMsg ''Game not found'')])
      | Foreign isPrototype \<Rightarrow> (srv, [Uncaught])
      | Primitive \<Rightarrow> (srv, [Uncaught])
      | Session game \<Rightarrow>
          (let playerIndex = indexOf (players game) previousId in
           if playerIndex \<noteq> - 1 then
             (let players' = (players game)[nat playerIndex := socket] in
              case playerInfo game previousId of
                None \<Rightarrow>
                  (store gameId
                     (game\<lparr>players := players',
                           playerInfo := (playerInfo game)(socket := None)\<rparr>) srv,
                   [Uncaught])
              | Some p \<Rightarrow>
                  (let game' = game\<lparr>players := players',
                         playerInfo := ((playerInfo game)
                           (socket \<mapsto> p\<lparr>connected := True, lastSeen := now\<rparr>))
                           (previousId := None)\<rparr>
                   in (store gameId game' srv,
                       [SocketJoin socket gameId,
                        SocketEmit socket
                          (ReconnectedToGame gameId (playerColor playerIndex)
                             (fen eng (gameState game)) (turn game)
                             (isCheck eng (gameState game))
                             (isCheckmate eng (gameState game))
                             (isDraw eng (gameState game)))]
                       @ (if length players' > opponentIndex playerIndex
                          then [RoomEmit (players' ! opponentIndex playerIndex)
                                  OpponentReconnected]
                          else []))))
           else (srv,
                 [SocketEmit socket (ErrorMsg ''You are not a player in this game'')])))"

text \<open>
  \<open>offer-draw\<close> and \<open>resign-game\<close> return on a falsy value and have no \<open>try\<close>:
  \<open>indexOf\<close> on a truthy value that is no game throws.
\<close>

definition offer_draw :: "sid \<Rightarrow> gid \<Rightarrow> int \<Rightarrow> 'pos server \<Rightarrow> 'pos server \<times> 'mv effect list" where
  "offer_draw socket gameId now srv =
     (case lookup srv gameId of
        Undefined \<Rightarrow> (srv, [])
      | Foreign isPrototype \<Rightarrow> (srv, [Uncaught])
      | Primitive \<Rightarrow> (srv, [Uncaught])
      | Session game \<Rightarrow>
          (let playerIndex = indexOf (players game) socket in
           if length (players game) > opponentIndex playerIndex then
             (store gameId (game\<lparr>lastActivity := now\<rparr>) srv,
              [RoomEmit (players game ! opponentIndex playerIndex) DrawOffered])
           else (srv, [])))"

text \<open>
  \<open>accept-draw\<close> reads no property of what it has found: on an object that is no game
  it writes the three properties to that object and broadcasts to the room named by the
  id; on a primitive value its first write throws.
\<close>

definition accept_draw :: "sid \<Rightarrow> gid \<Rightarrow> int \<Rightarrow> 'pos server \<Rightarrow> 'pos server \<times> 'mv effect list" where
  "accept_draw socket gameId now srv =
     (case lookup srv gameId of
        Undefined \<Rightarrow> (srv, [])
      | Primitive \<Rightarrow> (srv, [Uncaught])
      | Foreign isPrototype \<Rightarrow>
          (if isPrototype
           then srv\<lparr>protoLastActivity := Some now, protoFinished := True, protoResult := True\<rparr>
           else srv,
           [RoomEmit gameId DrawAccepted])
      | Session game \<Rightarrow>
          (store gameId
             (game\<lparr>lastActivity := now, finished := True, result := Some Draw\<rparr>) srv,
           [RoomEmit gameId DrawAccepted]))"

definition resign_game :: "sid \<Rightarrow> gid \<Rightarrow> int \<Rightarrow> 'pos server \<Rightarrow> 'pos server \<times> 'mv effect list" where
  "resign_game socket gameId now srv =
     (case lookup srv gameId of
        Undefined \<Rightarrow> (srv, [])
      | Foreign isPrototype \<Rightarrow> (srv, [Uncaught])
      | Primitive \<Rightarrow> (srv, [Uncaught])
      | Session game \<Rightarrow>
          (let winner = flip (playerColor (indexOf (players game) socket)) in
           (store gameId
              (game\<lparr>lastActivity := now, finished := True, result := Some (Winner winner)\<rparr>)
              srv,
            [RoomEmit gameId (PlayerResigned winner)])))"

text \<open>
  The body of the \<open>forEach\<close> of \<open>disconnect\<close> for one key, on the own properties of
  \<open>games\<close>; \<open>clock gameId\<close> is the time read while that game is visited. A key of
  \<open>Object.keys(games)\<close> is an own key, so the \<open>None\<close> case is never taken.
\<close>

definition disconnect_one ::
  "sid \<Rightarrow> (gid \<Rightarrow> int) \<Rightarrow> gid \<Rightarrow> (gid \<times> 'pos game) list \<times> 'mv effect list
     \<Rightarrow> (gid \<times> 'pos game) list \<times> 'mv effect list" where
  "disconnect_one socket clock gameId acc =
     (case map_of (fst acc) gameId of
        None \<Rightarrow> acc
      | Some game \<Rightarrow>
          (let playerIndex = indexOf (players game) socket in
           if playerIndex \<noteq> - 1 then
             (let game' =
                (case playerInfo game socket of
                   None \<Rightarrow> game
                 | Some p \<Rightarrow>
                     game\<lparr>playerInfo := (playerInfo game)
                       (socket \<mapsto> p\<lparr>connected := False, lastSeen := clock gameId\<rparr>)\<rparr>)
              in (AList.update gameId game' (fst acc),
                  snd acc
                  @ (if length (players game) > opponentIndex playerIndex
                     then [RoomEmit (players game ! opponentIndex playerIndex)
                             OpponentDisconnected]
                     else [])))
           else acc))"

definition disconnect ::
  "sid \<Rightarrow> (gid \<Rightarrow> int) \<Rightarrow> 'pos server \<Rightarrow> 'pos server \<times> 'mv effect list" where
  "disconnect socket clock srv =
     (let acc = fold (disconnect_one socket clock) (map fst (games srv)) (games srv, [])
      in (srv\<lparr>games := fst acc\<rparr>, snd acc))"

text \<open>The body of the \<open>forEach\<close> of the cleanup timer, and the timer's callback.\<close>

definition cleanup_one :: "int \<Rightarrow> gid \<Rightarrow> (gid \<times> 'pos game) list \<Rightarrow> (gid \<times> 'pos game) list" where
  "cleanup_one now gameId tbl =
     (case map_of tbl gameId of
        None \<Rightarrow> tbl
      | Some game \<Rightarrow>
          if now - lastActivity game > retention then AList.delete gameId tbl
          else tbl)"

definition cleanup :: "int \<Rightarrow> 'pos server \<Rightarrow> 'pos server" where
  "cleanup now srv =
     srv\<lparr>games := fold (cleanup_one now) (map fst (games srv)) (games srv)\<rparr>"

subsection \<open>Events and runs\<close>

datatype request =
    SyncGameState gid int
  | CreateGame gid int int
  | JoinGame gid int int
  | MakeMove gid string string int
  | Heartbeat gid int
  | ReconnectToGame gid sid int
  | OfferDraw gid int
  | AcceptDraw gid int
  | ResignGame gid int
  | Disconnect "gid \<Rightarrow> int"

datatype input = FromSocket sid request | CleanupTick int

fun step ::
  "('pos, 'mv) engine \<Rightarrow> input \<Rightarrow> 'pos server \<Rightarrow> 'pos server \<times> 'mv effect list" where
  "step eng (FromSocket s (SyncGameState g t)) srv = sync_game_state eng s g t srv"
| "step eng (FromSocket s (CreateGame g t1 t2)) srv = create_game eng s g t1 t2 srv"
| "step eng (FromSocket s (JoinGame g t1 t2)) srv = join_game eng s g t1 t2 srv"
| "step eng (FromSocket s (MakeMove g from to t)) srv = make_move eng s g from to t srv"
| "step eng (FromSocket s (Heartbeat g t)) srv = heartbeat s g t srv"
| "step eng (FromSocket s (ReconnectToGame g p t)) srv =
     reconnect_to_game eng s g p t srv"
| "step eng (FromSocket s (OfferDraw g t)) srv = offer_draw s g t srv"
| "step eng (FromSocket s (AcceptDraw g t)) srv = accept_draw s g t srv"
| "step eng (FromSocket s (ResignGame g t)) srv = resign_game s g t srv"
| "step eng (FromSocket s (Disconnect clock)) srv = disconnect s clock srv"
| "step eng (CleanupTick t) srv = (cleanup t srv, [])"

text \<open>
  Handlers run to completion one after the other. After a handler has thrown
  (\<open>Uncaught\<close>), the run goes on from the state as the throw left it.
\<close>

fun run ::
  "('pos, 'mv) engine \<Rightarrow> input list \<Rightarrow> 'pos server \<Rightarrow> 'pos server \<times> 'mv effect list" where
  "run eng [] srv = (srv, [])"
| "run eng (i # is) srv =
     (let (srv', out) = step eng i srv;
          (srv'', out') = run eng is srv'
      in (srv'', out @ out'))"

subsection \<open>A small engine for concrete runs\<close>

text \<open>
  A stand-in for chess.js on which runs can be evaluated: the position is the list of
  moves made; a move between two different squares is made, and every other move
  throws, as the engine does for a move it does not make.
\<close>

definition stub_engine :: "((string \<times> string) list, string \<times> string) engine" where
  "stub_engine =
     \<lparr>newChess = [],
      move = (\<lambda>pos from to.
                if from = [] \<or> to = [] \<or> from = to then Throws ''Invalid move''
                else Moved (from, to) (pos @ [(from, to)])),
      fen = (\<lambda>pos. concat (map (\<lambda>(from, to). from @ to) pos)),
      isCheck = (\<lambda>pos. False),
      isCheckmate = (\<lambda>pos. False),
      isDraw = (\<lambda>pos. False)\<rparr>"

subsection \<open>States and inputs for concrete runs\<close>

text \<open>
  A server with one game in which both slots are taken, White has moved, and it is
  Black's turn; it is the state after the three inputs below.
\<close>

definition example_game :: "(string \<times> string) list game" where
  "example_game =
     \<lparr>gameState = [(''e2'', ''e4'')],
      players = [''a'', ''b''],
      turn = Black,
      lastActivity = 5,
      playerInfo = [''a'' \<mapsto> \<lparr>color = White, connected = True, lastSeen = 2\<rparr>,
                    ''b'' \<mapsto> \<lparr>color = Black, connected = True, lastSeen = 3\<rparr>],
      finished = False,
      result = None\<rparr>"

definition example_server :: "(string \<times> string) list server" where
  "example_server =
     \<lparr>games = [(''g1'', example_game)],
      protoLastActivity = None, protoFinished = False, protoResult = False\<rparr>"

definition example_inputs :: "input list" where
  "example_inputs =
     [FromSocket ''a'' (CreateGame ''g1'' 1 2),
      FromSocket ''b'' (JoinGame ''g1'' 3 4),
      FromSocket ''a'' (MakeMove ''g1'' ''e2'' ''e4'' 5)]"

text \<open>
  The game that \<open>create-game\<close> from socket \<open>a\<close> leaves: one player, no move.
\<close>

definition lone_game :: "(string \<times> string) list game" where
  "lone_game =
     \<lparr>gameState = [],
      players = [''a''],
      turn = White,
      lastActivity = 1,
      playerInfo = [''a'' \<mapsto> \<lparr>color = White, connected = True, lastSeen = 2\<rparr>],
      finished = False,
      result = None\<rparr>"

definition lone_server :: "(string \<times> string) list server" where
  "lone_server =
     \<lparr>games = [(''g1'', lone_game)],
      protoLastActivity = None, protoFinished = False, protoResult = False\<rparr>"

text \<open>
  A resignation by \<open>a\<close> followed by an accepted draw from \<open>b\<close>.
\<close>

definition end_inputs :: "input list" where
  "end_inputs =
     [FromSocket ''a'' (ResignGame ''g1'' 6), FromSocket ''b'' (AcceptDraw ''g1'' 7)]"

subsection \<open>Notions used in the statements\<close>

text \<open>
  The inputs that end the game \<open>g\<close>: \<open>accept-draw\<close> and \<open>resign-game\<close> for it.
\<close>

fun ends_game :: "gid \<Rightarrow> input \<Rightarrow> bool" where
  "ends_game g (FromSocket s (AcceptDraw g' t)) = (g' = g)"
| "ends_game g (FromSocket s (ResignGame g' t)) = (g' = g)"
| "ends_game g i = False"

text \<open>
  The value such an input writes to \<open>result\<close> in a game whose slots are \<open>ps\<close>:
  \<open>'draw'\<close>, or the color opposite to the one derived for the resigning socket.
\<close>

fun outcome_of :: "sid list \<Rightarrow> input \<Rightarrow> outcome option" where
  "outcome_of ps (FromSocket s (AcceptDraw g t)) = Some Draw"
| "outcome_of ps (FromSocket s (ResignGame g t)) =
     Some (Winner (flip (playerColor (indexOf ps s))))"
| "outcome_of ps i = None"

text \<open>
  Every game of the table has at most two entries in \<open>players\<close>.
\<close>

definition slots_bounded :: "(gid \<times> 'pos game) list \<Rightarrow> bool" where
  "slots_bounded tbl = list_all (\<lambda>(gameId, game). length (players game) \<le> 2) tbl"

section \<open>Properties\<close>

subsection \<open>Basic facts\<close>

text \<open>
  A read of an own key gives the game stored there, and only such a read gives a game.
\<close>

lemma lookup_own: "map_of (games srv) gameId = Some game \<Longrightarrow> lookup srv gameId = Session game"
  by (simp add: lookup_def)

lemma lookup_Session_iff:
  "lookup srv gameId = Session game \<longleftrightarrow> map_of (games srv) gameId = Some game"
  by (auto simp: lookup_def split: option.splits if_splits)

lemma games_store: "games (store gameId game srv) = AList.update gameId game (games srv)"
  by (simp add: store_def)

lemma example_server_reached: "fst (run stub_engine example_inputs init) = example_server"
  by (simp add: example_inputs_def example_server_def example_game_def init_def
      create_game_def join_game_def make_move_def lookup_def store_def stub_engine_def
      playerColor_def flip_def your_turn_def)

lemma example_server_lookup: "map_of (games example_server) ''g1'' = Some example_game"
  by (simp add: example_server_def)

lemma example_server_update:
  "example_server\<lparr>games := AList.update ''g1'' g (games example_server)\<rparr>
     = example_server\<lparr>games := [(''g1'', g)]\<rparr>"
  by (simp add: example_server_def)

lemma lone_server_created:
  "fst (create_game stub_engine ''a'' ''g1'' 1 2 init) = lone_server"
  by (simp add: create_game_def lone_server_def lone_game_def stub_engine_def init_def
      store_def)

lemma lone_server_lookup: "map_of (games lone_server) ''g1'' = Some lone_game"
  by (simp add: lone_server_def)

lemma run_append:
  "run eng (xs @ ys) srv =
     (let (srv', out) = run eng xs srv; (srv'', out') = run eng ys srv'
      in (srv'', out @ out'))"
  by (induction xs arbitrary: srv) (simp_all add: split_beta)

lemma indexOf_ge: "- 1 \<le> indexOf xs x"
  by (induction xs) (auto simp: Let_def)

lemma indexOf_notin: "indexOf xs x = - 1 \<longleftrightarrow> x \<notin> set xs"
proof (induction xs)
  case Nil
  show ?case by simp
next
  case (Cons y ys)
  have "- 1 \<le> indexOf ys x" by (rule indexOf_ge)
  with Cons show ?case by (auto simp: Let_def)
qed

text \<open>
  The index of a value that is in the list is a position of the list.
\<close>

lemma indexOf_lt: "x \<in> set xs \<Longrightarrow> 0 \<le> indexOf xs x \<and> nat (indexOf xs x) < length xs"
proof (induction xs)
  case Nil
  then show ?case by simp
next
  case (Cons y ys)
  show ?case
  proof (cases "y = x")
    case True
    then show ?thesis by simp
  next
    case False
    with Cons.prems have mem: "x \<in> set ys" by simp
    from Cons.IH [OF mem] have "0 \<le> indexOf ys x" and "nat (indexOf ys x) < length ys"
      by simp_all
    with False show ?thesis by (simp add: Let_def nat_add_distrib)
  qed
qed

subsection \<open>Turn order in make-move\<close>

text \<open>
  The handler compares \<open>turn\<close> with the color derived from the index of the socket in
  \<open>players\<close>; a move that changes the game was made by a socket whose derived color had
  the turn, and leaves the turn with the other color.
\<close>

lemma accepted_move_turn:
  assumes "map_of (games srv) gameId = Some game"
    and "make_move eng socket gameId from to now srv = (srv', out)"
    and "map_of (games srv') gameId = Some game'"
    and "game' \<noteq> game"
  shows "turn game = playerColor (indexOf (players game) socket)
    \<and> turn game' = flip (playerColor (indexOf (players game) socket))"
  using assms
  by (auto simp: make_move_def lookup_own store_def Let_def update_conv'
      split: if_splits move_result.splits)

text \<open>
  C1. A move is to be accepted only from the holder of the slot whose color has the turn.
  The derived color is Black for every index other than 0, and the index of a socket in
  no slot is \<open>-1\<close>: after \<open>a\<close> has created the game, \<open>b\<close> has joined and \<open>a\<close> has moved,
  it is Black's turn, and a move sent by \<open>c\<close>, which holds no slot, is made and
  broadcast, and the turn passes to White.
\<close>

theorem non_player_move_accepted:
  "map_option players (map_of (games (fst (run stub_engine example_inputs init))) ''g1'')
     = Some [''a'', ''b'']
   \<and> map_option turn (map_of (games (fst (run stub_engine example_inputs init))) ''g1'')
       = Some Black
   \<and> indexOf [''a'', ''b''] ''c'' = - 1
   \<and> run stub_engine [FromSocket ''c'' (MakeMove ''g1'' ''e7'' ''e5'' 6)]
       (fst (run stub_engine example_inputs init)) =
       (example_server\<lparr>games :=
          [(''g1'', example_game\<lparr>gameState := [(''e2'', ''e4''), (''e7'', ''e5'')],
                                 turn := White, lastActivity := 6\<rparr>)]\<rparr>,
        [RoomEmit ''g1''
           (MoveMade ''e7'' ''e5'' ''e2e4e7e5'' White False False False (''e7'', ''e5'')),
         RoomEmit ''a'' YourTurn])"
  unfolding example_server_reached
  by (simp add: example_server_def example_game_def make_move_def lookup_def store_def
      stub_engine_def playerColor_def flip_def your_turn_def)

subsection \<open>Finished games\<close>

lemma end_step:
  assumes "map_of (games srv) gameId = Some game" and "ends_game gameId i"
  shows "\<exists>game'. map_of (games (fst (step eng i srv))) gameId = Some game'
    \<and> finished game' \<and> result game' = outcome_of (players game) i
    \<and> result game' \<noteq> None \<and> players game' = players game"
proof (cases i)
  case (FromSocket s r)
  with assms show ?thesis
    by (cases r)
      (simp_all add: accept_draw_def resign_game_def lookup_own store_def update_conv' Let_def)
next
  case (CleanupTick t)
  with assms show ?thesis by simp
qed

lemma end_run:
  assumes "map_of (games srv) gameId = Some game"
    and "inputs \<noteq> []"
    and "\<forall>i \<in> set inputs. ends_game gameId i"
  shows "\<exists>game'. map_of (games (fst (run eng inputs srv))) gameId = Some game'
    \<and> finished game' \<and> result game' = outcome_of (players game) (last inputs)
    \<and> result game' \<noteq> None \<and> players game' = players game"
  using assms
proof (induction inputs arbitrary: srv game)
  case Nil
  then show ?case by simp
next
  case (Cons i inputs)
  from Cons.prems have "ends_game gameId i" by simp
  from end_step [OF Cons.prems(1) this, of eng]
  obtain game1 where g1: "map_of (games (fst (step eng i srv))) gameId = Some game1"
    "finished game1" "result game1 = outcome_of (players game) i"
    "result game1 \<noteq> None" "players game1 = players game"
    by blast
  show ?case
  proof (cases "inputs = []")
    case True
    with g1 show ?thesis by (simp add: split_beta)
  next
    case False
    from Cons.prems have "\<forall>i \<in> set inputs. ends_game gameId i" by simp
    from Cons.IH [OF g1(1) False this] g1(5) False show ?thesis
      by (simp add: split_beta)
  qed
qed

text \<open>
  C2, as the handlers have it. After any non-empty sequence of \<open>accept-draw\<close> and
  \<open>resign-game\<close> events on an existing game, the game is still there with
  \<open>finished = true\<close> and \<open>result\<close> set; \<open>result\<close> holds the outcome of the last of
  these events (a draw, or the color opposite to the resigning socket's derived color),
  so a later event of the two replaces it.
\<close>

theorem finished_stays_result_follows_last:
  assumes "map_of (games srv) gameId = Some game"
    and "inputs \<noteq> []"
    and "\<forall>i \<in> set inputs. ends_game gameId i"
  shows "\<exists>game'. map_of (games (fst (run eng inputs srv))) gameId = Some game'
    \<and> finished game' \<and> result game' \<noteq> None
    \<and> result game' = outcome_of (players game) (last inputs)"
  using end_run [OF assms, of eng] by blast

theorem finished_stays_result_follows_last_witness:
  "map_of (games example_server) ''g1'' = Some example_game
   \<and> end_inputs \<noteq> []
   \<and> list_all (ends_game ''g1'') end_inputs
   \<and> map_option finished
       (map_of (games (fst (run stub_engine end_inputs example_server))) ''g1'') = Some True
   \<and> map_option result
       (map_of (games (fst (run stub_engine end_inputs example_server))) ''g1'')
       = Some (Some Draw)"
proof -
  have h1: "map_of (games example_server) ''g1'' = Some example_game"
    by (rule example_server_lookup)
  have h2: "end_inputs \<noteq> []"
    by (simp add: end_inputs_def)
  have h3: "\<forall>i \<in> set end_inputs. ends_game ''g1'' i"
    by (simp add: end_inputs_def)
  have h4: "outcome_of (players example_game) (last end_inputs) = Some Draw"
    by (simp add: end_inputs_def)
  from finished_stays_result_follows_last [OF h1 h2 h3, of stub_engine] h4
  have c: "map_option finished
       (map_of (games (fst (run stub_engine end_inputs example_server))) ''g1'') = Some True
   \<and> map_option result
       (map_of (games (fst (run stub_engine end_inputs example_server))) ''g1'')
       = Some (Some Draw)"
    by auto
  from h3 have "list_all (ends_game ''g1'') end_inputs"
    by (simp add: list_all_iff)
  with h1 h2 c show ?thesis by blast
qed

text \<open>
  C2, as stated, fails: in the two-player game above, \<open>a\<close> resigns and \<open>result\<close> is
  Black as winner; \<open>b\<close> then accepts a draw and \<open>result\<close> is \<open>'draw'\<close>.
\<close>

theorem result_overwritten_counterexample:
  "map_option result (map_of (games (fst (run stub_engine
       (example_inputs @ [FromSocket ''a'' (ResignGame ''g1'' 6)]) init))) ''g1'')
     = Some (Some (Winner Black))
   \<and> map_option result (map_of (games (fst (run stub_engine
       (example_inputs @ [FromSocket ''a'' (ResignGame ''g1'' 6),
                          FromSocket ''b'' (AcceptDraw ''g1'' 7)]) init))) ''g1'')
     = Some (Some Draw)"
  using example_server_reached
  by (simp add: run_append split_beta example_server_def example_game_def
      resign_game_def accept_draw_def lookup_def store_def playerColor_def flip_def)

subsection \<open>The cleanup timer\<close>

lemma map_of_cleanup_one:
  "map_of (cleanup_one now k tbl) gameId =
     (case map_of tbl gameId of
        None \<Rightarrow> None
      | Some game \<Rightarrow>
          if gameId = k \<and> now - lastActivity game > retention then None else Some game)"
  by (auto simp: cleanup_one_def delete_conv' split: option.splits)

lemma map_of_fold_cleanup_one:
  "map_of (fold (cleanup_one now) ks tbl) gameId =
     (case map_of tbl gameId of
        None \<Rightarrow> None
      | Some game \<Rightarrow>
          if gameId \<in> set ks \<and> now - lastActivity game > retention then None
          else Some game)"
proof (induction ks arbitrary: tbl)
  case Nil
  show ?case by (simp split: option.splits)
next
  case (Cons k ks)
  show ?case
    by (simp add: Cons.IH map_of_cleanup_one split: option.splits)
qed

lemma map_of_cleanup:
  "map_of (games (cleanup now srv)) gameId =
     (case map_of (games srv) gameId of
        None \<Rightarrow> None
      | Some game \<Rightarrow> if now - lastActivity game > retention then None else Some game)"
proof (cases "map_of (games srv) gameId")
  case None
  then show ?thesis by (simp add: cleanup_def map_of_fold_cleanup_one)
next
  case (Some game)
  then have "gameId \<in> set (map fst (games srv))"
    by (metis map_of_eq_None_iff option.distinct(1) set_map)
  with Some show ?thesis by (simp add: cleanup_def map_of_fold_cleanup_one)
qed

lemma sweeps_keep_active:
  assumes "map_of (games srv) gameId = Some game"
    and "\<forall>t \<in> set ts. t - lastActivity game \<le> retention"
  shows "map_of (games (fold cleanup ts srv)) gameId = Some game"
  using assms
proof (induction ts arbitrary: srv)
  case Nil
  then show ?case by simp
next
  case (Cons t ts)
  from Cons.prems have "map_of (games (cleanup t srv)) gameId = Some game"
    by (simp add: map_of_cleanup)
  with Cons show ?case by simp
qed

text \<open>
  C3. A run of the cleanup callback at time \<open>now\<close> removes an existing game exactly when
  \<open>now - lastActivity\<close> is more than 24 hours (86400000 ms), whatever \<open>finished\<close> holds;
  a game it does not remove is left as it is; and a game survives every sequence of runs
  at times that are all within 24 hours of its \<open>lastActivity\<close>.
\<close>

theorem cleanup_removes_iff_expired:
  assumes "map_of (games srv) gameId = Some game"
  shows "(map_of (games (cleanup now srv)) gameId = None
           \<longleftrightarrow> now - lastActivity game > 86400000)
    \<and> (\<not> now - lastActivity game > 86400000 \<longrightarrow>
         map_of (games (cleanup now srv)) gameId = Some game)
    \<and> ((\<forall>t \<in> set ts. t - lastActivity game \<le> 86400000) \<longrightarrow>
         map_of (games (fold cleanup ts srv)) gameId = Some game)"
proof -
  have r: "retention = 86400000" by (simp add: retention_def)
  from assms have a:
    "map_of (games (cleanup now srv)) gameId = None \<longleftrightarrow> now - lastActivity game > 86400000"
    by (simp add: map_of_cleanup r)
  from assms have b:
    "\<not> now - lastActivity game > 86400000 \<Longrightarrow>
       map_of (games (cleanup now srv)) gameId = Some game"
    by (simp add: map_of_cleanup r)
  from assms have c: "\<forall>t \<in> set ts. t - lastActivity game \<le> 86400000 \<Longrightarrow>
         map_of (games (fold cleanup ts srv)) gameId = Some game"
    by (rule sweeps_keep_active) (simp add: r)
  from a b c show ?thesis by blast
qed

theorem cleanup_removes_iff_expired_witness:
  "map_of (games example_server) ''g1'' = Some example_game
   \<and> lastActivity example_game = 5
   \<and> map_of (games (cleanup (5 + 25 * 3600000) example_server)) ''g1'' = None
   \<and> map_of (games (cleanup (5 + 23 * 3600000) example_server)) ''g1'' = Some example_game
   \<and> map_of (games (cleanup (5 + 24 * 3600000) example_server)) ''g1'' = Some example_game
   \<and> map_of (games (fold cleanup [3600005, 7200005, 86400005] example_server)) ''g1''
       = Some example_game"
proof -
  have h1: "map_of (games example_server) ''g1'' = Some example_game"
    by (rule example_server_lookup)
  have h2: "lastActivity example_game = 5"
    by (simp add: example_game_def)
  show ?thesis
    using h1 h2
      cleanup_removes_iff_expired [OF h1, of "5 + 25 * 3600000" "[]"]
      cleanup_removes_iff_expired [OF h1, of "5 + 23 * 3600000" "[]"]
      cleanup_removes_iff_expired [OF h1, of "5 + 24 * 3600000"
        "[3600005, 7200005, 86400005]"]
    by simp
qed

subsection \<open>At most two players\<close>

lemma slots_bounded_lookup:
  "slots_bounded tbl \<Longrightarrow> map_of tbl gameId = Some game \<Longrightarrow> length (players game) \<le> 2"
  by (auto simp: slots_bounded_def list_all_iff dest: map_of_SomeD)

lemma slots_bounded_update:
  "slots_bounded tbl \<Longrightarrow> length (players game) \<le> 2 \<Longrightarrow>
   slots_bounded (AList.update gameId game tbl)"
  by (induction tbl) (auto simp: slots_bounded_def)

lemma slots_bounded_delete:
  "slots_bounded tbl \<Longrightarrow> slots_bounded (AList.delete gameId tbl)"
  by (simp add: slots_bounded_def AList.delete_eq list_all_iff)

lemma slots_bounded_session:
  "slots_bounded (games srv) \<Longrightarrow> lookup srv gameId = Session game \<Longrightarrow>
   length (players game) \<le> 2"
  by (simp add: lookup_Session_iff slots_bounded_lookup)

lemma sync_bounded:
  "slots_bounded (games srv) \<Longrightarrow> slots_bounded (games (fst (sync_game_state eng s g t srv)))"
  by (auto simp: sync_game_state_def games_store slots_bounded_update slots_bounded_session
      split: found.splits)

lemma create_bounded:
  "slots_bounded (games srv) \<Longrightarrow> slots_bounded (games (fst (create_game eng s g t1 t2 srv)))"
  by (simp add: create_game_def games_store slots_bounded_update)

lemma join_bounded:
  "slots_bounded (games srv) \<Longrightarrow> slots_bounded (games (fst (join_game eng s g t1 t2 srv)))"
  by (auto simp: join_game_def games_store slots_bounded_update split: found.splits)

lemma move_bounded:
  "slots_bounded (games srv) \<Longrightarrow>
   slots_bounded (games (fst (make_move eng s g from to t srv)))"
  by (auto simp: make_move_def Let_def games_store slots_bounded_update
      slots_bounded_session split: found.splits move_result.splits)

lemma heartbeat_bounded:
  "slots_bounded (games srv) \<Longrightarrow> slots_bounded (games (fst (heartbeat s g t srv)))"
  by (auto simp: heartbeat_def games_store slots_bounded_update slots_bounded_session
      split: found.splits option.splits)

lemma reconnect_bounded:
  "slots_bounded (games srv) \<Longrightarrow>
   slots_bounded (games (fst (reconnect_to_game eng s g p t srv)))"
  by (auto simp: reconnect_to_game_def Let_def games_store slots_bounded_update
      slots_bounded_session split: found.splits option.splits)

lemma offer_bounded:
  "slots_bounded (games srv) \<Longrightarrow> slots_bounded (games (fst (offer_draw s g t srv)))"
  by (auto simp: offer_draw_def Let_def games_store slots_bounded_update
      slots_bounded_session split: found.splits)

lemma accept_bounded:
  "slots_bounded (games srv) \<Longrightarrow> slots_bounded (games (fst (accept_draw s g t srv)))"
  by (auto simp: accept_draw_def games_store slots_bounded_update slots_bounded_session
      split: found.splits)

lemma resign_bounded:
  "slots_bounded (games srv) \<Longrightarrow> slots_bounded (games (fst (resign_game s g t srv)))"
  by (auto simp: resign_game_def Let_def games_store slots_bounded_update
      slots_bounded_session split: found.splits)

lemma disconnect_one_bounded:
  "slots_bounded (fst acc) \<Longrightarrow> slots_bounded (fst (disconnect_one s clock g acc))"
  by (auto simp: disconnect_one_def Let_def slots_bounded_update slots_bounded_lookup
      split: option.splits)

lemma fold_disconnect_one_bounded:
  "slots_bounded (fst acc) \<Longrightarrow> slots_bounded (fst (fold (disconnect_one s clock) ks acc))"
  by (induction ks arbitrary: acc) (simp_all add: disconnect_one_bounded)

lemma disconnect_bounded:
  "slots_bounded (games srv) \<Longrightarrow> slots_bounded (games (fst (disconnect s clock srv)))"
  by (simp add: disconnect_def Let_def fold_disconnect_one_bounded)

lemma cleanup_one_bounded:
  "slots_bounded tbl \<Longrightarrow> slots_bounded (cleanup_one t g tbl)"
  by (simp add: cleanup_one_def slots_bounded_delete split: option.splits)

lemma fold_cleanup_one_bounded:
  "slots_bounded tbl \<Longrightarrow> slots_bounded (fold (cleanup_one t) ks tbl)"
  by (induction ks arbitrary: tbl) (simp_all add: cleanup_one_bounded)

lemma cleanup_bounded:
  "slots_bounded (games srv) \<Longrightarrow> slots_bounded (games (cleanup t srv))"
  by (simp add: cleanup_def fold_cleanup_one_bounded)

lemma step_bounded:
  "slots_bounded (games srv) \<Longrightarrow> slots_bounded (games (fst (step eng i srv)))"
proof (cases i)
  case (FromSocket s r)
  assume "slots_bounded (games srv)"
  with FromSocket show ?thesis
    by (cases r)
      (simp_all add: sync_bounded create_bounded join_bounded move_bounded heartbeat_bounded
        reconnect_bounded offer_bounded accept_bounded resign_bounded disconnect_bounded)
next
  case (CleanupTick t)
  assume "slots_bounded (games srv)"
  with CleanupTick show ?thesis by (simp add: cleanup_bounded)
qed

lemma run_bounded:
  "slots_bounded (games srv) \<Longrightarrow> slots_bounded (games (fst (run eng inputs srv)))"
proof (induction inputs arbitrary: srv)
  case Nil
  then show ?case by simp
next
  case (Cons i inputs)
  from Cons.prems have "slots_bounded (games (fst (step eng i srv)))"
    by (rule step_bounded)
  then have "slots_bounded (games (fst (run eng inputs (fst (step eng i srv)))))"
    by (rule Cons.IH)
  then show ?case by (simp add: split_beta)
qed

text \<open>
  C4. Starting from the empty table, after every sequence of inputs (the ten socket
  events, from any sockets and for any game ids, and runs of the cleanup timer) every
  game of the table has at most two entries in \<open>players\<close>. And \<open>join-game\<close> on an
  existing game appends the requester when \<open>players\<close> has fewer than two entries, and
  otherwise leaves \<open>players\<close> as it is.
\<close>

theorem players_at_most_two:
  "(map_of (games (fst (run eng inputs init))) gameId = Some game \<longrightarrow>
      length (players game) \<le> 2)
   \<and> (map_of (games srv) gameId = Some game0 \<longrightarrow>
        map_of (games (fst (join_game eng socket gameId tSeen tActivity srv))) gameId
          = Some game1 \<longrightarrow>
        players game1 =
          (if length (players game0) < 2 then players game0 @ [socket] else players game0))"
proof -
  have "slots_bounded (games (fst (run eng inputs init)))"
    by (rule run_bounded) (simp add: slots_bounded_def init_def)
  then have a: "map_of (games (fst (run eng inputs init))) gameId = Some game \<Longrightarrow>
      length (players game) \<le> 2"
    by (rule slots_bounded_lookup)
  have b: "map_of (games srv) gameId = Some game0 \<Longrightarrow>
      map_of (games (fst (join_game eng socket gameId tSeen tActivity srv))) gameId
        = Some game1 \<Longrightarrow>
      players game1 =
        (if length (players game0) < 2 then players game0 @ [socket] else players game0)"
    by (auto simp: join_game_def lookup_own games_store update_conv' split: if_splits)
  from a b show ?thesis by blast
qed

theorem players_at_most_two_witness:
  "map_of (games (fst (run stub_engine
       (example_inputs @ [FromSocket ''c'' (JoinGame ''g1'' 6 7)]) init))) ''g1''
     = Some example_game
   \<and> length (players example_game) \<le> 2
   \<and> map_of (games example_server) ''g1'' = Some example_game
   \<and> map_of (games (fst (join_game stub_engine ''c'' ''g1'' 6 7 example_server))) ''g1''
       = Some example_game
   \<and> players example_game =
       (if length (players example_game) < 2 then players example_game @ [''c'']
        else players example_game)"
proof -
  have h0: "fst (join_game stub_engine ''c'' ''g1'' 6 7 example_server) = example_server"
    by (simp add: join_game_def lookup_def example_server_def example_game_def)
  have h1: "map_of (games (fst (run stub_engine
       (example_inputs @ [FromSocket ''c'' (JoinGame ''g1'' 6 7)]) init))) ''g1''
       = Some example_game"
    using example_server_reached h0
    by (simp add: run_append split_beta example_server_lookup)
  have h2: "map_of (games example_server) ''g1'' = Some example_game"
    by (rule example_server_lookup)
  have h3: "map_of (games (fst (join_game stub_engine ''c'' ''g1'' 6 7 example_server))) ''g1''
       = Some example_game"
    by (simp add: h0 h2)
  note inst = players_at_most_two [of stub_engine
        "example_inputs @ [FromSocket ''c'' (JoinGame ''g1'' 6 7)]" "''g1''" example_game
        example_server example_game "''c''" 6 7 example_game]
  from inst h1 have c1: "length (players example_game) \<le> 2"
    by blast
  from inst h2 h3 have c2: "players example_game =
       (if length (players example_game) < 2 then players example_game @ [''c'']
        else players example_game)"
    by blast
  from h1 h2 h3 c1 c2 show ?thesis by blast
qed

subsection \<open>Reconnection by an identity that holds no slot\<close>

text \<open>
  C5. When \<open>reconnect-to-game\<close> names a \<open>previousId\<close> that is in no slot of
  \<open>players\<close> of an existing game, the handler sends the error
  \<open>You are not a player in this game\<close> to the requesting socket and nothing else, and
  the whole state, hence every field of the game, is as before.
\<close>

theorem reconnect_unknown_identity:
  assumes "map_of (games srv) gameId = Some game"
    and "previousId \<notin> set (players game)"
  shows "reconnect_to_game eng socket gameId previousId now srv =
    (srv, [SocketEmit socket (ErrorMsg ''You are not a player in this game'')])"
  using assms by (simp add: reconnect_to_game_def lookup_own indexOf_notin)

theorem reconnect_unknown_identity_witness:
  "map_of (games example_server) ''g1'' = Some example_game
   \<and> ''z'' \<notin> set (players example_game)
   \<and> reconnect_to_game stub_engine ''c'' ''g1'' ''z'' 9 example_server =
       (example_server, [SocketEmit ''c'' (ErrorMsg ''You are not a player in this game'')])"
proof -
  have h1: "map_of (games example_server) ''g1'' = Some example_game"
    by (rule example_server_lookup)
  have h2: "''z'' \<notin> set (players example_game)"
    by (simp add: example_game_def)
  show ?thesis
    using h1 h2 reconnect_unknown_identity [OF h1 h2, of stub_engine "''c''" 9] by simp
qed

subsection \<open>What refreshes lastActivity\<close>




subsection \<open>A move the engine refuses\<close>

text \<open>
  C7, as the handler has it. When the requester's color equals \<open>turn\<close> and the engine
  refuses the move, which it does by throwing, \<open>make-move\<close> leaves the state as it was,
  so \<open>turn\<close> and \<open>lastActivity\<close> are unchanged, and broadcasts nothing; the \<open>catch\<close>
  sends the message of the engine's error to the mover in an \<open>error\<close> event.
\<close>

theorem rejected_move_reports_error:
  assumes "map_of (games srv) gameId = Some game"
    and "turn game = playerColor (indexOf (players game) socket)"
    and "move eng (gameState game) from to = Throws msg"
  shows "make_move eng socket gameId from to now srv =
    (srv, [SocketEmit socket (ErrorMsg msg)])"
  using assms by (simp add: make_move_def lookup_own)

theorem rejected_move_reports_error_witness:
  "map_of (games example_server) ''g1'' = Some example_game
   \<and> turn example_game = playerColor (indexOf (players example_game) ''b'')
   \<and> move stub_engine (gameState example_game) ''e7'' [] = Throws ''Invalid move''
   \<and> make_move stub_engine ''b'' ''g1'' ''e7'' [] 9 example_server
       = (example_server, [SocketEmit ''b'' (ErrorMsg ''Invalid move'')])"
proof -
  have h1: "map_of (games example_server) ''g1'' = Some example_game"
    by (rule example_server_lookup)
  have h2: "turn example_game = playerColor (indexOf (players example_game) ''b'')"
    by (simp add: example_game_def playerColor_def)
  have h3: "move stub_engine (gameState example_game) ''e7'' [] = Throws ''Invalid move''"
    by (simp add: stub_engine_def)
  show ?thesis
    using h1 h2 h3 rejected_move_reports_error [OF h1 h2 h3, of 9] by simp
qed

text \<open>
  C7, as stated, fails in its last part: in the two-player game above it is Black's turn
  and \<open>b\<close>, who holds the Black slot, sends a move from a square to itself; the engine
  throws and \<open>b\<close> receives an \<open>error\<close> event.
\<close>

theorem illegal_move_error_counterexample:
  "map_option turn (map_of (games (fst (run stub_engine example_inputs init))) ''g1'')
     = Some Black
   \<and> playerColor (indexOf [''a'', ''b''] ''b'') = Black
   \<and> move stub_engine [(''e2'', ''e4'')] ''e7'' ''e7'' = Throws ''Invalid move''
   \<and> run stub_engine [FromSocket ''b'' (MakeMove ''g1'' ''e7'' ''e7'' 6)]
       (fst (run stub_engine example_inputs init))
       = (example_server, [SocketEmit ''b'' (ErrorMsg ''Invalid move'')])"
  unfolding example_server_reached
  by (simp add: example_server_def example_game_def make_move_def lookup_def
      stub_engine_def playerColor_def)

subsection \<open>Requests from a socket that holds no slot\<close>

text \<open>
  C8. For a socket in no slot of an existing game, \<open>indexOf\<close> gives \<open>-1\<close> and the derived
  color is Black. So when it is Black's turn and the engine makes the move, \<open>make-move\<close>
  from that socket stores the new position, passes the turn to White, refreshes
  \<open>lastActivity\<close> and broadcasts \<open>move-made\<close>; and \<open>resign-game\<close> from that socket
  finishes the game with White as winner and broadcasts it.
\<close>

theorem non_player_counts_as_black:
  fixes eng :: "('pos, 'mv) engine"
  assumes "map_of (games srv) gameId = Some game"
    and "socket \<notin> set (players game)"
  shows "indexOf (players game) socket = - 1
    \<and> playerColor (indexOf (players game) socket) = Black
    \<and> (turn game = Black \<longrightarrow> move eng (gameState game) from to = Moved mv pos \<longrightarrow>
         make_move eng socket gameId from to now srv =
           (srv\<lparr>games := AList.update gameId
              (game\<lparr>gameState := pos, turn := White, lastActivity := now\<rparr>) (games srv)\<rparr>,
            RoomEmit gameId
              (MoveMade from to (fen eng pos) White
                 (isCheck eng pos) (isCheckmate eng pos) (isDraw eng pos) mv)
            # your_turn (game\<lparr>gameState := pos, turn := White, lastActivity := now\<rparr>)))
    \<and> resign_game socket gameId now srv =
         (srv\<lparr>games := AList.update gameId
            (game\<lparr>lastActivity := now, finished := True, result := Some (Winner White)\<rparr>)
            (games srv)\<rparr>,
          [RoomEmit gameId (PlayerResigned White :: 'mv message)])"
proof -
  from assms(2) have idx: "indexOf (players game) socket = - 1"
    by (simp add: indexOf_notin)
  then have col: "playerColor (indexOf (players game) socket) = Black"
    by (simp add: playerColor_def)
  from assms(1) col have mv: "turn game = Black \<Longrightarrow>
      move eng (gameState game) from to = Moved mv pos \<Longrightarrow>
      make_move eng socket gameId from to now srv =
        (srv\<lparr>games := AList.update gameId
           (game\<lparr>gameState := pos, turn := White, lastActivity := now\<rparr>) (games srv)\<rparr>,
         RoomEmit gameId
           (MoveMade from to (fen eng pos) White
              (isCheck eng pos) (isCheckmate eng pos) (isDraw eng pos) mv)
         # your_turn (game\<lparr>gameState := pos, turn := White, lastActivity := now\<rparr>))"
    by (simp add: make_move_def lookup_own store_def flip_def Let_def)
  from assms(1) col have rs: "resign_game socket gameId now srv =
      (srv\<lparr>games := AList.update gameId
         (game\<lparr>lastActivity := now, finished := True, result := Some (Winner White)\<rparr>)
         (games srv)\<rparr>,
       [RoomEmit gameId (PlayerResigned White :: 'mv message)])"
    by (simp add: resign_game_def lookup_own store_def flip_def)
  from idx col mv rs show ?thesis by blast
qed

theorem non_player_counts_as_black_witness:
  "map_of (games example_server) ''g1'' = Some example_game
   \<and> ''c'' \<notin> set (players example_game)
   \<and> turn example_game = Black
   \<and> move stub_engine (gameState example_game) ''e7'' ''e5''
       = Moved (''e7'', ''e5'') [(''e2'', ''e4''), (''e7'', ''e5'')]
   \<and> make_move stub_engine ''c'' ''g1'' ''e7'' ''e5'' 9 example_server =
       (example_server\<lparr>games :=
          [(''g1'', example_game\<lparr>gameState := [(''e2'', ''e4''), (''e7'', ''e5'')],
                                 turn := White, lastActivity := 9\<rparr>)]\<rparr>,
        [RoomEmit ''g1''
           (MoveMade ''e7'' ''e5'' ''e2e4e7e5'' White False False False (''e7'', ''e5'')),
         RoomEmit ''a'' YourTurn])
   \<and> resign_game ''c'' ''g1'' 9 example_server =
       (example_server\<lparr>games :=
          [(''g1'', example_game\<lparr>lastActivity := 9, finished := True,
                                 result := Some (Winner White)\<rparr>)]\<rparr>,
        [RoomEmit ''g1'' (PlayerResigned White :: (string \<times> string) message)])"
proof -
  have h1: "map_of (games example_server) ''g1'' = Some example_game"
    by (rule example_server_lookup)
  have h2: "''c'' \<notin> set (players example_game)"
    by (simp add: example_game_def)
  have h3: "turn example_game = Black"
    by (simp add: example_game_def)
  have h4: "move stub_engine (gameState example_game) ''e7'' ''e5''
       = Moved (''e7'', ''e5'') [(''e2'', ''e4''), (''e7'', ''e5'')]"
    by (simp add: example_game_def stub_engine_def)
  have h5: "fen stub_engine [(''e2'', ''e4''), (''e7'', ''e5'')] = ''e2e4e7e5''"
    "\<not> isCheck stub_engine p" "\<not> isCheckmate stub_engine p" "\<not> isDraw stub_engine p" for p
    by (simp_all add: stub_engine_def)
  have h6: "your_turn (example_game\<lparr>gameState := p, turn := White, lastActivity := 9\<rparr>)
      = [RoomEmit ''a'' YourTurn]" for p
    by (simp add: your_turn_def example_game_def)
  show ?thesis
    using h1 h2 h3 h4
      non_player_counts_as_black [OF h1 h2, of stub_engine "''e7''" "''e5''"
        "(''e7'', ''e5'')" "[(''e2'', ''e4''), (''e7'', ''e5'')]" 9]
    by (simp add: example_server_update h5 h6)
qed

subsection \<open>Joining a game one already holds\<close>

text \<open>
  C9. \<open>join-game\<close> does not look at who asks: in a game whose only player is the
  requester, the join succeeds, the requester holds both slots, and its \<open>playerInfo\<close>
  entry is replaced by one with color Black.
\<close>

theorem join_by_slot_holder:
  assumes "map_of (games srv) gameId = Some game"
    and "players game = [socket]"
  shows "join_game eng socket gameId tSeen tActivity srv =
    (srv\<lparr>games := AList.update gameId
       (game\<lparr>players := [socket, socket],
             playerInfo := (playerInfo game)
               (socket \<mapsto> \<lparr>color = Black, connected = True, lastSeen = tSeen\<rparr>),
             lastActivity := tActivity\<rparr>) (games srv)\<rparr>,
     [SocketJoin socket gameId,
      SocketEmit socket (GameJoined gameId Black),
      RoomEmit gameId (GameStart (fen eng (gameState game)) (turn game))])"
  using assms by (simp add: join_game_def lookup_own store_def)

theorem join_by_slot_holder_witness:
  "map_of (games lone_server) ''g1'' = Some lone_game
   \<and> players lone_game = [''a'']
   \<and> playerInfo lone_game ''a'' = Some \<lparr>color = White, connected = True, lastSeen = 2\<rparr>
   \<and> dom (playerInfo lone_game) = {''a''}
   \<and> join_game stub_engine ''a'' ''g1'' 3 4 lone_server =
       (lone_server\<lparr>games :=
          [(''g1'', lone_game\<lparr>players := [''a'', ''a''],
            playerInfo := [''a'' \<mapsto> \<lparr>color = Black, connected = True, lastSeen = 3\<rparr>],
            lastActivity := 4\<rparr>)]\<rparr>,
        [SocketJoin ''a'' ''g1'',
         SocketEmit ''a'' (GameJoined ''g1'' Black),
         RoomEmit ''g1'' (GameStart [] White)])"
proof -
  have h1: "map_of (games lone_server) ''g1'' = Some lone_game"
    by (rule lone_server_lookup)
  have h2: "players lone_game = [''a'']"
    by (simp add: lone_game_def)
  have h3: "playerInfo lone_game = [''a'' \<mapsto> \<lparr>color = White, connected = True, lastSeen = 2\<rparr>]"
    "fen stub_engine (gameState lone_game) = []" "turn lone_game = White"
    by (simp_all add: lone_game_def stub_engine_def)
  have h4: "lone_server\<lparr>games := AList.update ''g1'' g (games lone_server)\<rparr>
     = lone_server\<lparr>games := [(''g1'', g)]\<rparr>" for g
    by (simp add: lone_server_def)
  show ?thesis
    using h1 h2 join_by_slot_holder [OF h1 h2, of stub_engine 3 4]
    by (simp add: h3 h4)
qed

subsection \<open>Accepting a draw\<close>

text \<open>
  C10. \<open>accept-draw\<close> only needs the game to exist: whoever sends it, a holder of a slot
  or not, and whatever happened before (the game keeps no record of an offer), the
  handler emits \<open>draw-accepted\<close> to the game's room and stores \<open>finished = true\<close> and
  \<open>result = 'draw'\<close>, with \<open>lastActivity\<close> refreshed.
\<close>

theorem accept_draw_any_requester:
  assumes "map_of (games srv) gameId = Some game"
  shows "accept_draw socket gameId now srv =
    (srv\<lparr>games := AList.update gameId
       (game\<lparr>lastActivity := now, finished := True, result := Some Draw\<rparr>) (games srv)\<rparr>,
     [RoomEmit gameId DrawAccepted])"
  using assms by (simp add: accept_draw_def lookup_own store_def)

theorem accept_draw_any_requester_witness:
  "map_of (games example_server) ''g1'' = Some example_game
   \<and> ''z'' \<notin> set (players example_game)
   \<and> accept_draw ''z'' ''g1'' 9 example_server =
       (example_server\<lparr>games :=
          [(''g1'', example_game\<lparr>lastActivity := 9, finished := True,
                                 result := Some Draw\<rparr>)]\<rparr>,
        [RoomEmit ''g1'' (DrawAccepted :: (string \<times> string) message)])"
proof -
  have h1: "map_of (games example_server) ''g1'' = Some example_game"
    by (rule example_server_lookup)
  have h2: "''z'' \<notin> set (players example_game)"
    by (simp add: example_game_def)
  show ?thesis
    using h1 h2 accept_draw_any_requester [OF h1, of "''z''" 9]
    by (simp add: example_server_update)
qed

end
